theory Spec2Isabelle
  imports Main "HOL-Library.Word"
begin

section \<open>Strings\<close>

text \<open>
  A JavaScript string is a sequence of UTF-16 code units. Literals of the source are
  written through \<open>js\<close>.
\<close>

type_synonym code_unit = "16 word"
type_synonym jsstring = "code_unit list"

definition js :: "string \<Rightarrow> jsstring" where
  "js s = map of_char s"

text \<open>
  \<^verbatim>\<open>String.prototype.trim\<close> strips the ECMAScript WhiteSpace and LineTerminator code
  points from both ends: TAB, LF, VT, FF, CR, SP, NBSP, U+1680, U+2000 to U+200A,
  U+2028, U+2029, U+202F, U+205F, U+3000 and U+FEFF.
\<close>

definition isWhiteSpace :: "code_unit \<Rightarrow> bool" where
  "isWhiteSpace c \<longleftrightarrow>
     (0x0009 \<le> c \<and> c \<le> 0x000D) \<or> c = 0x0020 \<or> c = 0x00A0 \<or> c = 0x1680 \<or>
     (0x2000 \<le> c \<and> c \<le> 0x200A) \<or> c = 0x2028 \<or> c = 0x2029 \<or> c = 0x202F \<or>
     c = 0x205F \<or> c = 0x3000 \<or> c = 0xFEFF"

definition trim :: "jsstring \<Rightarrow> jsstring" where
  "trim s = rev (dropWhile isWhiteSpace (rev (dropWhile isWhiteSpace s)))"

text \<open>
  A session id as the client holds it. It is read from the \<^verbatim>\<open>session_id\<close> key of a reply,
  which may be absent (\<^verbatim>\<open>undefined\<close>), JSON \<^verbatim>\<open>null\<close> or a string, and the three are sent
  back differently: a template literal renders them as the texts \<^verbatim>\<open>undefined\<close>, \<^verbatim>\<open>null\<close>
  and the string itself, and \<^verbatim>\<open>JSON.stringify\<close> drops the key, writes \<^verbatim>\<open>null\<close> or writes
  the string.
\<close>

datatype js_id = Undefined | Null | Id jsstring

definition idText :: "js_id \<Rightarrow> jsstring" where
  "idText i = (case i of Undefined \<Rightarrow> js ''undefined'' | Null \<Rightarrow> js ''null'' | Id s \<Rightarrow> s)"

section \<open>Data model\<close>

text \<open>The interfaces declared at the top of the component (lines 5 to 42).\<close>

record ClusterConfig =
  ip :: jsstring
  username :: jsstring
  password :: jsstring
  url :: jsstring

text \<open>
  \<open>sessionId\<close> and \<open>workflows\<close> are filled from keys of server replies, so at run time
  they can hold \<^verbatim>\<open>undefined\<close> or \<^verbatim>\<open>null\<close> too. For \<open>workflows\<close> and \<open>errorMessage\<close> both
  are \<open>None\<close>: the client only tests these fields for truthiness. \<open>status\<close> is a string:
  the poller stores whatever status text the server reports.
\<close>

record TestSession =
  sessionId :: js_id
  status :: jsstring
  command :: jsstring
  workflows :: "jsstring list option"
  errorMessage :: "jsstring option"

record ExecutionStep =
  stepId :: jsstring
  workflow :: jsstring
  tddStep :: jsstring
  status_step :: jsstring
  timestamp :: jsstring
  errorDetails :: "jsstring option"

record ClarificationOption =
  value_opt :: jsstring
  label :: jsstring
  description :: "jsstring option"
  data :: "jsstring option"

record ClarificationQuestion =
  type_q :: jsstring
  message :: jsstring
  options :: "ClarificationOption list"
  workflow_context :: jsstring
  parameter_name :: "jsstring option"

text \<open>The \<^verbatim>\<open>useState\<close> cells of the component \<^verbatim>\<open>E2ETestingAgent\<close> (lines 45 to 60).\<close>

record component =
  instruction :: jsstring
  clusterConfig :: ClusterConfig
  isExecuting :: bool
  testSession :: "TestSession option"
  executionSteps :: "ExecutionStep list"
  showExamples :: bool
  showClarification :: bool
  clarificationQuestion :: "ClarificationQuestion option"
  selectedOption :: jsstring

section \<open>The network\<close>

text \<open>
  The five calls the client makes, each with the data it puts into the request: the four
  body fields of the parse call, the body fields of the clarification call, the session
  id as the template literal of the skip call's path renders it, and the session id
  that \<^verbatim>\<open>JSON.stringify\<close> puts under the \<^verbatim>\<open>session_id\<close> key of the clarification, execute
  and status calls (no key for \<^verbatim>\<open>undefined\<close>, \<^verbatim>\<open>null\<close> for \<^verbatim>\<open>null\<close>).
\<close>

datatype request =
    ParseTestInstructions (prompt: jsstring) (req_url: jsstring)
      (req_username: jsstring) (req_password: jsstring)
  | ProvideClarification js_id jsstring jsstring
  | SkipClarification jsstring
  | ExecuteTestPlan js_id
  | GetSessionStatus js_id

text \<open>
  A decoded reply body, restricted to the keys the client reads. Every key may be absent
  or \<^verbatim>\<open>null\<close>. For \<^verbatim>\<open>session_id\<close> the two are told apart; for every other key both are
  \<open>None\<close>, since the client treats them alike there (\<^verbatim>\<open>||\<close>, \<^verbatim>\<open>===\<close> against a string,
  \<^verbatim>\<open>if\<close>). Values that are present are taken to be of the types the interfaces declare.
\<close>

record json_obj =
  json_status :: "jsstring option"
  json_session_id :: js_id
  json_detected_workflows :: "jsstring list option"
  json_clarification :: "ClarificationQuestion option"
  json_workflows :: "jsstring list option"
  json_updated_workflows :: "jsstring list option"
  json_error_message :: "jsstring option"
  json_steps :: "ExecutionStep list option"

text \<open>
  A \<^verbatim>\<open>Response\<close>: \<open>json\<close> is what \<^verbatim>\<open>await response.json()\<close> gives, \<open>Inl\<close> the message of
  the error it throws on a body that does not decode.
\<close>

record http_response =
  ok :: bool
  statusText :: jsstring
  json :: "jsstring + json_obj"

text \<open>
  \<^verbatim>\<open>await fetch(...)\<close> either rejects (transport failure, with the message of the thrown
  error) or resolves to a response, whatever its status code.
\<close>

datatype fetch_result = Rejected jsstring | Resolved http_response

type_synonym server = "request \<Rightarrow> fetch_result"

section \<open>Effects and timers\<close>

text \<open>
  What a handler does besides returning: the \<^verbatim>\<open>alert\<close> dialogs it opens, the requests it
  sends and the values it writes to the \<^verbatim>\<open>testSession\<close> cell, in order.
\<close>

datatype effect = Alert jsstring | Fetch request | SetTestSession "TestSession option"

text \<open>
  One call of \<^verbatim>\<open>pollExecutionStatus\<close>: the session id and the instruction its closures
  captured, whether its \<^verbatim>\<open>setInterval\<close> is still live and whether its \<^verbatim>\<open>setTimeout\<close>
  is still pending. The position of the entry in \<open>polls\<close> is the timer handle.
\<close>

record poll =
  poll_sessionId :: js_id
  poll_instruction :: jsstring
  intervalActive :: bool
  ceilingPending :: bool

record world =
  ui :: component
  effects :: "effect list"
  polls :: "poll list"

definition requests :: "world \<Rightarrow> request list" where
  "requests w = concat (map (\<lambda>e. case e of Fetch r \<Rightarrow> [r] | _ \<Rightarrow> []) (effects w))"

definition sessionWrites :: "world \<Rightarrow> TestSession option list" where
  "sessionWrites w =
     concat (map (\<lambda>e. case e of SetTestSession s \<Rightarrow> [s] | _ \<Rightarrow> []) (effects w))"

definition alert :: "jsstring \<Rightarrow> world \<Rightarrow> world" where
  "alert m w = w\<lparr>effects := effects w @ [Alert m]\<rparr>"

definition sent :: "request \<Rightarrow> world \<Rightarrow> world" where
  "sent r w = w\<lparr>effects := effects w @ [Fetch r]\<rparr>"

definition setIsExecuting :: "bool \<Rightarrow> world \<Rightarrow> world" where
  "setIsExecuting b w = w\<lparr>ui := (ui w)\<lparr>isExecuting := b\<rparr>\<rparr>"

definition setTestSession :: "TestSession option \<Rightarrow> world \<Rightarrow> world" where
  "setTestSession s w =
     w\<lparr>ui := (ui w)\<lparr>testSession := s\<rparr>, effects := effects w @ [SetTestSession s]\<rparr>"

definition setExecutionSteps :: "ExecutionStep list \<Rightarrow> world \<Rightarrow> world" where
  "setExecutionSteps xs w = w\<lparr>ui := (ui w)\<lparr>executionSteps := xs\<rparr>\<rparr>"

definition setShowClarification :: "bool \<Rightarrow> world \<Rightarrow> world" where
  "setShowClarification b w = w\<lparr>ui := (ui w)\<lparr>showClarification := b\<rparr>\<rparr>"

definition setClarificationQuestion :: "ClarificationQuestion option \<Rightarrow> world \<Rightarrow> world" where
  "setClarificationQuestion q w = w\<lparr>ui := (ui w)\<lparr>clarificationQuestion := q\<rparr>\<rparr>"

definition setSelectedOption :: "jsstring \<Rightarrow> world \<Rightarrow> world" where
  "setSelectedOption s w = w\<lparr>ui := (ui w)\<lparr>selectedOption := s\<rparr>\<rparr>"

definition clearInterval :: "nat \<Rightarrow> world \<Rightarrow> world" where
  "clearInterval i w =
     (if i < length (polls w)
      then w\<lparr>polls := (polls w)[i := (polls w ! i)\<lparr>intervalActive := False\<rparr>]\<rparr>
      else w)"

section \<open>The handlers\<close>

text \<open>
  The idiom shared by the four foreground calls:
  \<^verbatim>\<open>r = await fetch(..); if (!r.ok) throw new Error(prefix + r.statusText); await r.json()\<close>.
  \<open>Inl\<close> carries the message of the error that reaches the \<^verbatim>\<open>catch\<close> block. Every
  error raised there is an \<^verbatim>\<open>Error\<close> object, so the \<^verbatim>\<open>instanceof Error\<close> test of the
  \<^verbatim>\<open>catch\<close> blocks always picks its message.
\<close>

definition settle :: "jsstring \<Rightarrow> fetch_result \<Rightarrow> jsstring + json_obj" where
  "settle prefix r =
     (case r of
        Rejected m \<Rightarrow> Inl m
      | Resolved resp \<Rightarrow> if \<not> ok resp then Inl (prefix @ statusText resp) else json resp)"

text \<open>\<^verbatim>\<open>a || b || []\<close> on arrays: an array, even an empty one, is truthy.\<close>

definition orElse :: "'a option \<Rightarrow> 'a option \<Rightarrow> 'a option" where
  "orElse a b = (case a of Some x \<Rightarrow> Some x | None \<Rightarrow> b)"

text \<open>\<^verbatim>\<open>pollExecutionStatus\<close> (lines 289 to 335) registers the interval and the timeout.\<close>

definition pollExecutionStatus :: "js_id \<Rightarrow> world \<Rightarrow> world" where
  "pollExecutionStatus sid w =
     w\<lparr>polls := polls w @
        [\<lparr>poll_sessionId = sid, poll_instruction = instruction (ui w),
          intervalActive = True, ceilingPending = True\<rparr>]\<rparr>"

text \<open>\<^verbatim>\<open>proceedWithExecution\<close> (lines 244 to 287).\<close>

definition proceedWithExecution :: "server \<Rightarrow> js_id \<Rightarrow> json_obj \<Rightarrow> world \<Rightarrow> world" where
  "proceedWithExecution srv sid parseResult w =
     (let req = ExecuteTestPlan sid; w1 = sent req w in
      case settle (js ''Failed to execute test: '') (srv req) of
        Inr sessionResult \<Rightarrow>
          pollExecutionStatus sid
            (setTestSession (Some
               \<lparr>sessionId = sid, status = js ''executing'', command = instruction (ui w),
                workflows = orElse (json_workflows parseResult)
                              (orElse (json_updated_workflows parseResult) (Some [])),
                errorMessage = None\<rparr>) w1)
      | Inl msg \<Rightarrow>
          setIsExecuting False
            (setTestSession (Some
               \<lparr>sessionId = sid, status = js ''failed'', command = instruction (ui w),
                workflows = Some [], errorMessage = Some msg\<rparr>) w1))"

text \<open>\<^verbatim>\<open>executeTest\<close> (lines 74 to 138).\<close>

definition executeTest :: "server \<Rightarrow> world \<Rightarrow> world" where
  "executeTest srv w =
     (let c = clusterConfig (ui w) in
      if trim (instruction (ui w)) = [] \<or> ip c = [] \<or> username c = []
      then alert (js ''Please fill in all required fields'') w
      else
        let w0 = setShowClarification False (setExecutionSteps []
                   (setTestSession None (setIsExecuting True w)));
            req = ParseTestInstructions (instruction (ui w))
                    (if url c \<noteq> [] then url c else js ''https://'' @ ip c)
                    (username c) (password c);
            w1 = sent req w0 in
        case settle (js ''Failed to parse instructions: '') (srv req) of
          Inr parseResult \<Rightarrow>
            if json_status parseResult = Some (js ''needs_clarification'')
            then setIsExecuting False
                   (setTestSession (Some
                      \<lparr>sessionId = json_session_id parseResult,
                       status = js ''needs_clarification'',
                       command = instruction (ui w),
                       workflows = orElse (json_detected_workflows parseResult) (Some []),
                       errorMessage = None\<rparr>)
                   (setShowClarification True
                   (setClarificationQuestion (json_clarification parseResult) w1)))
            else proceedWithExecution srv (json_session_id parseResult) parseResult w1
        | Inl msg \<Rightarrow>
            setIsExecuting False
              (setTestSession (Some
                 \<lparr>sessionId = Id (js ''error''), status = js ''failed'',
                  command = instruction (ui w), workflows = Some [],
                  errorMessage = Some msg\<rparr>) w1))"

text \<open>\<^verbatim>\<open>handleClarificationResponse\<close> (lines 140 to 196), the spec's answerClarification.\<close>

definition handleClarificationResponse :: "server \<Rightarrow> world \<Rightarrow> world" where
  "handleClarificationResponse srv w =
     (case (testSession (ui w), clarificationQuestion (ui w)) of
        (Some session, Some question) \<Rightarrow>
          if selectedOption (ui w) = []
          then alert (js ''Please select an option'') w
          else
            let w0 = setIsExecuting True w;
                req = ProvideClarification (sessionId session) (type_q question)
                        (selectedOption (ui w));
                w1 = sent req w0 in
            (case settle (js ''Failed to process clarification: '') (srv req) of
               Inr clarificationResult \<Rightarrow>
                 proceedWithExecution srv (sessionId session) clarificationResult
                   (setTestSession (Some (session
                       \<lparr>status := js ''parsing'',
                        workflows := json_updated_workflows clarificationResult\<rparr>))
                   (setSelectedOption []
                   (setClarificationQuestion None
                   (setShowClarification False w1))))
             | Inl msg \<Rightarrow>
                 setShowClarification False
                   (setIsExecuting False
                   (setTestSession (Some (session
                       \<lparr>status := js ''failed'', errorMessage := Some msg\<rparr>)) w1)))
      | _ \<Rightarrow> alert (js ''Please select an option'') w)"

text \<open>
  \<^verbatim>\<open>skipClarification\<close> (lines 198 to 242). The path of the request is a template
  literal over the session id: \<open>idText\<close>.
\<close>

definition skipClarification :: "server \<Rightarrow> world \<Rightarrow> world" where
  "skipClarification srv w =
     (case testSession (ui w) of
        None \<Rightarrow> w
      | Some session \<Rightarrow>
          let w0 = setIsExecuting True w;
              req = SkipClarification
                      (idText (sessionId session));
              w1 = sent req w0 in
          (case settle (js ''Failed to skip clarification: '') (srv req) of
             Inr skipResult \<Rightarrow>
               proceedWithExecution srv (sessionId session) skipResult
                 (setTestSession (Some (session
                     \<lparr>status := js ''parsing'', workflows := json_workflows skipResult\<rparr>))
                 (setClarificationQuestion None
                 (setShowClarification False w1)))
           | Inl msg \<Rightarrow>
               setShowClarification False
                 (setIsExecuting False
                 (setTestSession (Some (session
                     \<lparr>status := js ''failed'', errorMessage := Some msg\<rparr>)) w1))))"

text \<open>
  The body of the \<^verbatim>\<open>setInterval\<close> callback (lines 290 to 328) for the poll with handle
  \<open>i\<close>, run against the server as it answers at that moment. A cleared interval fires
  no more. A reply that is not 2xx is skipped by the \<^verbatim>\<open>if (response.ok)\<close> guard, which
  has no \<^verbatim>\<open>else\<close>; the \<^verbatim>\<open>catch\<close> block is reached when \<^verbatim>\<open>fetch\<close> rejects or the
  body does not decode. The request is taken to complete before the next timer fires.
\<close>

definition terminalStatus :: "json_obj \<Rightarrow> bool" where
  "terminalStatus st \<longleftrightarrow>
     json_status st = Some (js ''completed'') \<or> json_status st = Some (js ''failed'')"

definition intervalTick :: "nat \<Rightarrow> server \<Rightarrow> world \<Rightarrow> world" where
  "intervalTick i srv w =
     (if i < length (polls w) \<and> intervalActive (polls w ! i)
      then
        let p = polls w ! i;
            req = GetSessionStatus (poll_sessionId p);
            w1 = sent req w;
            caught = setIsExecuting False (clearInterval i w1) in
        (case srv req of
           Rejected m \<Rightarrow> caught
         | Resolved response \<Rightarrow>
             if ok response
             then (case json response of
                     Inl m \<Rightarrow> caught
                   | Inr st \<Rightarrow>
                       let prev = testSession (ui w1);
                           w2 = setTestSession (Some
                                  \<lparr>sessionId = poll_sessionId p,
                                   status = (case json_status st of
                                               Some s \<Rightarrow> if s \<noteq> [] then s else js ''executing''
                                             | None \<Rightarrow> js ''executing''),
                                   command = poll_instruction p,
                                   workflows =
                                     orElse (json_workflows st)
                                       (orElse (case prev of Some s \<Rightarrow> workflows s | None \<Rightarrow> None)
                                          (Some [])),
                                   errorMessage = json_error_message st\<rparr>) w1 in
                       if terminalStatus st
                       then
                         let w3 = setIsExecuting False (clearInterval i w2) in
                         (case json_steps st of
                            Some steps \<Rightarrow> setExecutionSteps steps w3
                          | None \<Rightarrow> w3)
                       else w2)
             else w1)
      else w)"

text \<open>The \<^verbatim>\<open>setTimeout\<close> callback (lines 331 to 334) of the poll with handle \<open>i\<close>.\<close>

definition ceilingTimeout :: "nat \<Rightarrow> world \<Rightarrow> world" where
  "ceilingTimeout i w =
     (if i < length (polls w) \<and> ceilingPending (polls w ! i)
      then setIsExecuting False
             (clearInterval i
                (w\<lparr>polls := (polls w)[i := (polls w ! i)\<lparr>ceilingPending := False\<rparr>]\<rparr>))
      else w)"




definition pollTicks :: "nat \<Rightarrow> server list \<Rightarrow> world \<Rightarrow> world" where
  "pollTicks i srvs w = fold (intervalTick i) srvs w"

text \<open>
  The timers of one poll on a clock. \<^verbatim>\<open>setInterval(.., 3000)\<close> fires at 3000, 6000, ...
  milliseconds after the call and \<^verbatim>\<open>setTimeout(.., 600000)\<close> at 600000. \<open>elapse i tie env t w\<close>
  is the world \<open>t\<close> milliseconds after \<^verbatim>\<open>pollExecutionStatus\<close> registered poll \<open>i\<close> in \<open>w\<close>,
  when no other event happens; \<open>env k\<close> is the server as it answers the \<open>k\<close>-th tick. At
  600000 both timers are due and the source does not fix their order: \<open>tie\<close> says
  whether the 200th tick runs before the timeout. After the timeout the interval is
  cleared, so nothing is left to fire.
\<close>

definition elapse :: "nat \<Rightarrow> bool \<Rightarrow> (nat \<Rightarrow> server) \<Rightarrow> nat \<Rightarrow> world \<Rightarrow> world" where
  "elapse i tie env t w =
     (let w1 = pollTicks i (map env [1 ..< Suc (min (t div 3000) 199)]) w in
      if t < 600000 then w1
      else ceilingTimeout i (if tie then intervalTick i (env 200) w1 else w1))"

text \<open>What a reply does to the interval that receives it.\<close>

definition stopsPolling :: "fetch_result \<Rightarrow> bool" where
  "stopsPolling r =
     (case r of
        Rejected m \<Rightarrow> True
      | Resolved response \<Rightarrow>
          ok response \<and> (case json response of Inl m \<Rightarrow> True | Inr st \<Rightarrow> terminalStatus st))"



section \<open>Scenarios\<close>

text \<open>Concrete replies, servers and worlds on which the properties below are exercised.\<close>

definition empty_reply :: json_obj where
  "empty_reply =
     \<lparr>json_status = None, json_session_id = Undefined, json_detected_workflows = None,
      json_clarification = None, json_workflows = None, json_updated_workflows = None,
      json_error_message = None, json_steps = None\<rparr>"

definition http_ok :: "json_obj \<Rightarrow> fetch_result" where
  "http_ok body = Resolved \<lparr>ok = True, statusText = js ''OK'', json = Inr body\<rparr>"

definition http_500 :: fetch_result where
  "http_500 =
     Resolved \<lparr>ok = False, statusText = js ''Internal Server Error'',
               json = Inl (js ''Unexpected end of JSON input'')\<rparr>"

definition srv_down :: server where
  "srv_down r = Rejected (js ''Failed to fetch'')"

definition srv_500 :: server where
  "srv_500 r = http_500"

definition question0 :: ClarificationQuestion where
  "question0 =
     \<lparr>type_q = js ''fabric_selection'', message = js ''Which fabric?'',
      options = [\<lparr>value_opt = js ''fabric1'', label = js ''Fabric 1'',
                  description = None, data = None\<rparr>],
      workflow_context = js ''create_l3vn'', parameter_name = Some (js ''fabric_name'')\<rparr>"



definition cluster0 :: ClusterConfig where
  "cluster0 = \<lparr>ip = js ''192.168.1.100'', username = js ''admin'', password = js ''x'', url = []\<rparr>"

definition ui_idle :: component where
  "ui_idle =
     \<lparr>instruction = js ''create L3VN'', clusterConfig = cluster0, isExecuting = False,
      testSession = None, executionSteps = [], showExamples = False,
      showClarification = False, clarificationQuestion = None, selectedOption = []\<rparr>"

definition w_ready :: world where
  "w_ready = \<lparr>ui = ui_idle, effects = [], polls = []\<rparr>"

definition w_blank :: world where
  "w_blank = \<lparr>ui = ui_idle\<lparr>instruction := js ''  ''\<rparr>, effects = [], polls = []\<rparr>"

definition session_asked :: TestSession where
  "session_asked =
     \<lparr>sessionId = Id (js ''s1''), status = js ''needs_clarification'',
      command = js ''create L3VN'', workflows = Some [], errorMessage = None\<rparr>"

definition w_asked :: world where
  "w_asked =
     \<lparr>ui = ui_idle\<lparr>testSession := Some session_asked, showClarification := True,
                    clarificationQuestion := Some question0\<rparr>,
      effects = [], polls = []\<rparr>"

definition session_running :: TestSession where
  "session_running =
     \<lparr>sessionId = Id (js ''s1''), status = js ''executing'', command = js ''create L3VN'',
      workflows = Some [], errorMessage = None\<rparr>"

definition poll0 :: poll where
  "poll0 = \<lparr>poll_sessionId = Id (js ''s1''), poll_instruction = js ''create L3VN'',
            intervalActive = True, ceilingPending = True\<rparr>"

definition w_polling :: world where
  "w_polling =
     \<lparr>ui = ui_idle\<lparr>isExecuting := True, testSession := Some session_running\<rparr>,
      effects =
        [SetTestSession None,
         Fetch (ParseTestInstructions (js ''create L3VN'') (js ''https://192.168.1.100'')
                  (js ''admin'') (js ''x'')),
         Fetch (ExecuteTestPlan (Id (js ''s1''))),
         SetTestSession (Some session_running)],
      polls = [poll0]\<rparr>"


definition srv_status :: "string \<Rightarrow> server" where
  "srv_status s r = http_ok (empty_reply\<lparr>json_status := Some (js s)\<rparr>)"

definition env_busy :: "nat \<Rightarrow> server" where
  "env_busy k = srv_status ''executing''"

definition w_chosen :: world where
  "w_chosen =
     \<lparr>ui = ui_idle\<lparr>testSession := Some session_asked, showClarification := True,
                    clarificationQuestion := Some question0,
                    selectedOption := js ''fabric1''\<rparr>,
      effects = [], polls = []\<rparr>"

definition srv_workflows :: server where
  "srv_workflows r =
     (case r of
        SkipClarification _ \<Rightarrow>
          http_ok (empty_reply\<lparr>json_workflows :=
            Some [js ''provision_devices'', js ''create_fabric'', js ''provision_devices'']\<rparr>)
      | _ \<Rightarrow> http_ok empty_reply)"


definition srv_mute :: server where
  "srv_mute r = http_ok empty_reply"

definition srv_updated :: server where
  "srv_updated r =
     (case r of
        SkipClarification _ \<Rightarrow>
          http_ok (empty_reply\<lparr>json_updated_workflows :=
            Some [js ''create_fabric'', js ''provision_devices'']\<rparr>)
      | _ \<Rightarrow> http_ok empty_reply)"



section \<open>Properties\<close>

subsection \<open>Strings\<close>

lemma of_char_lt: "(of_char c :: nat) < 256"
  by (metis of_char_mod_256 mod_less_divisor zero_less_numeral)

lemma unat_of_char: "unat (of_char c :: 16 word) = of_char c"
proof -
  have "(of_char c :: 16 word) = of_nat (of_char c)"
    by (simp add: of_nat_of_char)
  then have "unat (of_char c :: 16 word) = (of_char c :: nat) mod 2 ^ 16"
    by (simp add: unat_of_nat)
  also have "\<dots> = of_char c"
  proof (rule mod_less)
    show "(of_char c :: nat) < 2 ^ 16" by (rule less_trans [OF of_char_lt]) simp
  qed
  finally show ?thesis .
qed

lemma inj_of_char_unit: "inj (of_char :: char \<Rightarrow> 16 word)"
proof (rule injI)
  fix c d :: char
  assume "(of_char c :: 16 word) = of_char d"
  then have "unat (of_char c :: 16 word) = unat (of_char d :: 16 word)" by simp
  then have "(of_char c :: nat) = of_char d" by (simp only: unat_of_char)
  then show "c = d" by simp
qed

lemma js_eq_iff: "js a = js b \<longleftrightarrow> a = b"
  by (simp add: js_def inj_of_char_unit)

lemma js_Nil_iff: "js a = [] \<longleftrightarrow> a = []"
  by (simp add: js_def)

text \<open>\<^verbatim>\<open>!s.trim()\<close> holds exactly for the strings made of white space only.\<close>

lemma trim_empty_iff: "trim s = [] \<longleftrightarrow> (\<forall>c \<in> set s. isWhiteSpace c)"
proof -
  have "(\<forall>x \<in> set (dropWhile isWhiteSpace s). isWhiteSpace x) \<longleftrightarrow> (\<forall>x \<in> set s. isWhiteSpace x)"
    by (induction s) auto
  then show ?thesis
    by (simp add: trim_def)
qed

subsection \<open>Submitting\<close>

lemmas world_ops = alert_def sent_def setIsExecuting_def setTestSession_def
  setExecutionSteps_def setShowClarification_def setClarificationQuestion_def
  setSelectedOption_def requests_def sessionWrites_def

text \<open>The requests one call of \<open>executeTest\<close> sends.\<close>

lemma executeTest_requests:
  "requests (executeTest srv w) =
     (let c = clusterConfig (ui w) in
      if trim (instruction (ui w)) = [] \<or> ip c = [] \<or> username c = [] then requests w
      else
        let req = ParseTestInstructions (instruction (ui w))
                    (if url c \<noteq> [] then url c else js ''https://'' @ ip c)
                    (username c) (password c) in
        requests w @ req #
          (case settle (js ''Failed to parse instructions: '') (srv req) of
             Inr parseResult \<Rightarrow>
               if json_status parseResult = Some (js ''needs_clarification'') then []
               else [ExecuteTestPlan (json_session_id parseResult)]
           | Inl msg \<Rightarrow> []))"
  by (simp add: executeTest_def Let_def world_ops pollExecutionStatus_def
      proceedWithExecution_def split: sum.splits)

lemma w_ready_filled:
  "\<not> (trim (instruction (ui w_ready)) = [] \<or> ip (clusterConfig (ui w_ready)) = [] \<or>
      username (clusterConfig (ui w_ready)) = [])"
  by (simp add: trim_empty_iff w_ready_def ui_idle_def cluster0_def js_def isWhiteSpace_def)

text \<open>
  C4. When the instruction is empty or made of white space only, or the cluster ip or
  the username is empty, \<open>executeTest\<close> sends no request and leaves the component state
  and the timers as they were: all it does is open the alert. These three fields are
  exactly the ones checked: in every other state a request is sent, whatever the
  password.
\<close>

theorem executeTest_requires_fields:
  "(((\<forall>c \<in> set (instruction (ui w)). isWhiteSpace c) \<or> ip (clusterConfig (ui w)) = [] \<or>
      username (clusterConfig (ui w)) = [])
     \<longleftrightarrow> requests (executeTest srv w) = requests w) \<and>
   ((\<forall>c \<in> set (instruction (ui w)). isWhiteSpace c) \<or> ip (clusterConfig (ui w)) = [] \<or>
      username (clusterConfig (ui w)) = []
     \<longrightarrow> ui (executeTest srv w) = ui w \<and> polls (executeTest srv w) = polls w \<and>
         effects (executeTest srv w) =
           effects w @ [Alert (js ''Please fill in all required fields'')])"
proof -
  have "((\<forall>c \<in> set (instruction (ui w)). isWhiteSpace c) \<or> ip (clusterConfig (ui w)) = [] \<or>
      username (clusterConfig (ui w)) = [])
     \<longleftrightarrow> requests (executeTest srv w) = requests w"
    by (simp add: executeTest_requests Let_def trim_empty_iff)
  moreover have "ui (executeTest srv w) = ui w \<and> polls (executeTest srv w) = polls w \<and>
      effects (executeTest srv w) =
        effects w @ [Alert (js ''Please fill in all required fields'')]"
    if "(\<forall>c \<in> set (instruction (ui w)). isWhiteSpace c) \<or> ip (clusterConfig (ui w)) = [] \<or>
      username (clusterConfig (ui w)) = []"
    using that by (auto simp: executeTest_def Let_def trim_empty_iff world_ops)
  ultimately show ?thesis by blast
qed

theorem executeTest_requires_fields_witness:
  "trim (instruction (ui w_blank)) = [] \<and>
   requests (executeTest srv_down w_blank) = requests w_blank \<and>
   ui (executeTest srv_down w_blank) = ui w_blank \<and>
   requests (executeTest srv_down w_ready) \<noteq> requests w_ready"
proof -
  have blank: "\<forall>c \<in> set (instruction (ui w_blank)). isWhiteSpace c"
    by (simp add: w_blank_def js_def isWhiteSpace_def)
  have filled: "\<not> ((\<forall>c \<in> set (instruction (ui w_ready)). isWhiteSpace c) \<or>
      ip (clusterConfig (ui w_ready)) = [] \<or> username (clusterConfig (ui w_ready)) = [])"
    using w_ready_filled by (simp add: trim_empty_iff)
  have "requests (executeTest srv_down w_blank) = requests w_blank \<and>
      ui (executeTest srv_down w_blank) = ui w_blank \<and>
      requests (executeTest srv_down w_ready) \<noteq> requests w_ready"
    using blank filled executeTest_requires_fields [of w_blank srv_down]
      executeTest_requires_fields [of w_ready srv_down]
    by blast
  with blank show ?thesis by (simp add: trim_empty_iff)
qed

text \<open>
  C10. The parse request carries the cluster url as typed when it is not empty, and
  \<^verbatim>\<open>https://\<close> followed by the cluster ip when it is empty.
\<close>

theorem parse_request_url:
  "\<not> (trim (instruction (ui w)) = [] \<or> ip (clusterConfig (ui w)) = [] \<or>
       username (clusterConfig (ui w)) = [])
   \<Longrightarrow> \<exists>rest. requests (executeTest srv w) =
        requests w @
        ParseTestInstructions (instruction (ui w))
          (if url (clusterConfig (ui w)) = [] then js ''https://'' @ ip (clusterConfig (ui w))
           else url (clusterConfig (ui w)))
          (username (clusterConfig (ui w))) (password (clusterConfig (ui w))) # rest"
  by (auto simp: executeTest_requests Let_def)

theorem parse_request_url_witness:
  "take 1 (requests (executeTest srv_down w_ready)) =
     [ParseTestInstructions (js ''create L3VN'') (js ''https://192.168.1.100'')
        (js ''admin'') (js ''x'')]"
proof -
  from parse_request_url [OF w_ready_filled, of srv_down]
  obtain rest where "requests (executeTest srv_down w_ready) =
      requests w_ready @
      ParseTestInstructions (instruction (ui w_ready))
        (if url (clusterConfig (ui w_ready)) = []
         then js ''https://'' @ ip (clusterConfig (ui w_ready))
         else url (clusterConfig (ui w_ready)))
        (username (clusterConfig (ui w_ready))) (password (clusterConfig (ui w_ready))) # rest"
    by blast
  then show ?thesis
    by (simp add: w_ready_def ui_idle_def cluster0_def requests_def js_def)
qed

subsection \<open>Clarification\<close>

text \<open>
  C8. With no option selected, \<open>handleClarificationResponse\<close> sends no request and leaves
  the component state and the timers as they were: all it does is open the alert.
\<close>

theorem answer_requires_selection:
  "selectedOption (ui w) = [] \<Longrightarrow>
   requests (handleClarificationResponse srv w) = requests w \<and>
   ui (handleClarificationResponse srv w) = ui w \<and>
   polls (handleClarificationResponse srv w) = polls w \<and>
   effects (handleClarificationResponse srv w) =
     effects w @ [Alert (js ''Please select an option'')]"
  by (simp add: handleClarificationResponse_def world_ops split: option.splits)

theorem answer_requires_selection_witness:
  "requests (handleClarificationResponse srv_down w_asked) = requests w_asked \<and>
   ui (handleClarificationResponse srv_down w_asked) = ui w_asked \<and>
   testSession (ui w_asked) = Some session_asked \<and>
   clarificationQuestion (ui w_asked) = Some question0"
proof -
  have "selectedOption (ui w_asked) = []"
    by (simp add: w_asked_def ui_idle_def)
  from answer_requires_selection [OF this, of srv_down] show ?thesis
    by (simp add: w_asked_def)
qed


lemma ceilingTimeout_requests: "requests (ceilingTimeout i w) = requests w"
  by (simp add: ceilingTimeout_def world_ops clearInterval_def)


text \<open>With no interval live, timer callbacks leave the session and the question alone.\<close>

lemma intervalTick_idle:
  "\<not> (i < length (polls w) \<and> intervalActive (polls w ! i)) \<Longrightarrow> intervalTick i srv w = w"
  by (auto simp: intervalTick_def)





subsection \<open>Polling\<close>

text \<open>One tick of a live interval, and a run of ticks.\<close>

lemma intervalTick_live:
  assumes "i < length (polls w)" and "intervalActive (polls w ! i)"
  shows "length (polls (intervalTick i srv w)) = length (polls w)"
    and "intervalActive (polls (intervalTick i srv w) ! i) \<longleftrightarrow>
           \<not> stopsPolling (srv (GetSessionStatus (poll_sessionId (polls w ! i))))"
    and "poll_sessionId (polls (intervalTick i srv w) ! i) = poll_sessionId (polls w ! i)"
    and "poll_instruction (polls (intervalTick i srv w) ! i) = poll_instruction (polls w ! i)"
    and "ceilingPending (polls (intervalTick i srv w) ! i) = ceilingPending (polls w ! i)"
    and "requests (intervalTick i srv w) =
           requests w @ [GetSessionStatus (poll_sessionId (polls w ! i))]"
    and "isExecuting (ui (intervalTick i srv w)) \<longleftrightarrow>
           isExecuting (ui w) \<and>
           \<not> stopsPolling (srv (GetSessionStatus (poll_sessionId (polls w ! i))))"
  using assms
  by (simp_all add: intervalTick_def Let_def world_ops clearInterval_def stopsPolling_def
      split: fetch_result.splits sum.splits option.splits)

lemma pollTicks_idle:
  "\<not> (i < length (polls w) \<and> intervalActive (polls w ! i)) \<Longrightarrow> pollTicks i srvs w = w"
  by (induction srvs) (simp_all add: pollTicks_def intervalTick_idle)

lemma pollTicks_Cons: "pollTicks i (srv # srvs) w = pollTicks i srvs (intervalTick i srv w)"
  by (simp add: pollTicks_def)

lemma pollTicks_live:
  assumes "i < length (polls w)" and "intervalActive (polls w ! i)"
  shows "length (polls (pollTicks i srvs w)) = length (polls w) \<and>
     poll_sessionId (polls (pollTicks i srvs w) ! i) = poll_sessionId (polls w ! i) \<and>
     poll_instruction (polls (pollTicks i srvs w) ! i) = poll_instruction (polls w ! i) \<and>
     ceilingPending (polls (pollTicks i srvs w) ! i) = ceilingPending (polls w ! i) \<and>
     (intervalActive (polls (pollTicks i srvs w) ! i) \<longleftrightarrow>
        (\<forall>srv \<in> set srvs. \<not> stopsPolling (srv (GetSessionStatus (poll_sessionId (polls w ! i)))))) \<and>
     (isExecuting (ui (pollTicks i srvs w)) \<longleftrightarrow>
        isExecuting (ui w) \<and>
        (\<forall>srv \<in> set srvs. \<not> stopsPolling (srv (GetSessionStatus (poll_sessionId (polls w ! i)))))) \<and>
     requests (pollTicks i srvs w) =
       requests w @
       replicate
         (min (length srvs)
            (Suc (length (takeWhile
               (\<lambda>srv. \<not> stopsPolling (srv (GetSessionStatus (poll_sessionId (polls w ! i)))))
               srvs))))
         (GetSessionStatus (poll_sessionId (polls w ! i)))"
  using assms
proof (induction srvs arbitrary: w)
  case Nil
  then show ?case by (simp add: pollTicks_def)
next
  case (Cons srv srvs)
  let ?req = "GetSessionStatus (poll_sessionId (polls w ! i))"
  let ?w1 = "intervalTick i srv w"
  note live = intervalTick_live [OF Cons.prems, of srv]
  show ?case
  proof (cases "stopsPolling (srv ?req)")
    case True
    then have "\<not> (i < length (polls ?w1) \<and> intervalActive (polls ?w1 ! i))"
      using live by simp
    then have "pollTicks i srvs ?w1 = ?w1" by (rule pollTicks_idle)
    then show ?thesis using True live by (simp add: pollTicks_Cons)
  next
    case False
    then have a: "i < length (polls ?w1)" "intervalActive (polls ?w1 ! i)"
      using live Cons.prems by simp_all
    from Cons.IH [OF a] False live show ?thesis
      by (simp add: pollTicks_Cons)
  qed
qed


lemma js_append: "js a @ js b = js (a @ b)"
  by (simp add: js_def)





text \<open>
  C1. Over any sequence of replies to the ticks of a live poll, the interval stays live
  exactly as long as no reply stops it, \<open>isExecuting\<close> is cleared by the reply that stops
  it, and no status request is sent after that reply. A 2xx reply whose body decodes
  stops the poll exactly when its status is \<^verbatim>\<open>completed\<close> or \<^verbatim>\<open>failed\<close>; a reply that is
  not 2xx does not stop it; a \<^verbatim>\<open>fetch\<close> that rejects stops it, with no retry, and so
  does a 2xx reply whose body does not decode.
\<close>

theorem polling_stops_on_terminal_status:
  assumes "i < length (polls w)" and "intervalActive (polls w ! i)"
  shows "(intervalActive (polls (pollTicks i srvs w) ! i) \<longleftrightarrow>
        (\<forall>srv \<in> set srvs. \<not> stopsPolling (srv (GetSessionStatus (poll_sessionId (polls w ! i)))))) \<and>
     (isExecuting (ui (pollTicks i srvs w)) \<longleftrightarrow>
        isExecuting (ui w) \<and>
        (\<forall>srv \<in> set srvs. \<not> stopsPolling (srv (GetSessionStatus (poll_sessionId (polls w ! i)))))) \<and>
     requests (pollTicks i srvs w) =
       requests w @
       replicate
         (min (length srvs)
            (Suc (length (takeWhile
               (\<lambda>srv. \<not> stopsPolling (srv (GetSessionStatus (poll_sessionId (polls w ! i)))))
               srvs))))
         (GetSessionStatus (poll_sessionId (polls w ! i))) \<and>
     stopsPolling (Rejected m) \<and>
     (ok response \<and> json response = Inr st \<longrightarrow>
        (stopsPolling (Resolved response) \<longleftrightarrow>
           json_status st = Some (js ''completed'') \<or> json_status st = Some (js ''failed''))) \<and>
     (\<not> ok response' \<longrightarrow> \<not> stopsPolling (Resolved response')) \<and>
     (ok response'' \<and> json response'' = Inl m' \<longrightarrow> stopsPolling (Resolved response''))"
proof -
  have "stopsPolling (Rejected m)"
    by (simp add: stopsPolling_def)
  moreover have "ok response \<and> json response = Inr st \<longrightarrow>
        (stopsPolling (Resolved response) \<longleftrightarrow>
           json_status st = Some (js ''completed'') \<or> json_status st = Some (js ''failed''))"
    by (simp add: stopsPolling_def terminalStatus_def)
  moreover have "\<not> ok response' \<longrightarrow> \<not> stopsPolling (Resolved response')"
    by (simp add: stopsPolling_def)
  moreover have "ok response'' \<and> json response'' = Inl m' \<longrightarrow>
        stopsPolling (Resolved response'')"
    by (simp add: stopsPolling_def)
  ultimately show ?thesis
    using pollTicks_live [OF assms, of srvs] by blast
qed

theorem polling_stops_on_terminal_status_witness:
  "\<not> intervalActive
       (polls (pollTicks 0 [srv_status ''executing'', srv_status ''completed'',
                            srv_status ''executing''] w_polling) ! 0) \<and>
   \<not> isExecuting
       (ui (pollTicks 0 [srv_status ''executing'', srv_status ''completed'',
                         srv_status ''executing''] w_polling)) \<and>
   intervalActive (polls (pollTicks 0 [srv_status ''executing'', srv_500] w_polling) ! 0) \<and>
   length (requests (pollTicks 0 [srv_status ''executing'', srv_status ''completed'',
                         srv_status ''executing''] w_polling)) = length (requests w_polling) + 2"
proof -
  have a: "0 < length (polls w_polling)" "intervalActive (polls w_polling ! 0)"
    by (simp_all add: w_polling_def poll0_def)
  have s: "\<not> stopsPolling (srv_status ''executing'' r)" "stopsPolling (srv_status ''completed'' r)"
      "\<not> stopsPolling (srv_500 r)" for r
    by (simp_all add: stopsPolling_def srv_status_def srv_500_def http_500_def http_ok_def
        terminalStatus_def empty_reply_def js_eq_iff)
  show ?thesis
    using polling_stops_on_terminal_status [OF a,
        of "[srv_status ''executing'', srv_status ''completed'', srv_status ''executing'']"]
      polling_stops_on_terminal_status [OF a, of "[srv_status ''executing'', srv_500]"]
    by (simp add: s a)
qed


lemma intervalTick_ceiling:
  "length (polls (intervalTick i srv w)) = length (polls w) \<and>
   (i < length (polls w) \<longrightarrow>
      ceilingPending (polls (intervalTick i srv w) ! i) = ceilingPending (polls w ! i))"
proof (cases "i < length (polls w) \<and> intervalActive (polls w ! i)")
  case True
  then show ?thesis using intervalTick_live [of i w srv] by simp
next
  case False
  then show ?thesis by (simp add: intervalTick_idle)
qed

lemma intervalTick_requests_le:
  "length (requests (intervalTick i srv w)) \<le> Suc (length (requests w))"
proof (cases "i < length (polls w) \<and> intervalActive (polls w ! i)")
  case True
  then show ?thesis using intervalTick_live [of i w srv] by simp
next
  case False
  then show ?thesis by (simp add: intervalTick_idle)
qed

lemma ceilingTimeout_pending:
  assumes "i < length (polls w)" and "ceilingPending (polls w ! i)"
  shows "length (polls (ceilingTimeout i w)) = length (polls w) \<and>
         \<not> intervalActive (polls (ceilingTimeout i w) ! i) \<and>
         \<not> ceilingPending (polls (ceilingTimeout i w) ! i) \<and>
         \<not> isExecuting (ui (ceilingTimeout i w))"
  using assms by (simp add: ceilingTimeout_def clearInterval_def world_ops)

lemma ceilingTimeout_session:
  "testSession (ui (ceilingTimeout i w)) = testSession (ui w) \<and>
   sessionWrites (ceilingTimeout i w) = sessionWrites w \<and>
   requests (ceilingTimeout i w) = requests w"
  by (simp add: ceilingTimeout_def clearInterval_def world_ops)

lemma elapse_ceiling:
  assumes "i < length (polls w)" and "intervalActive (polls w ! i)"
    and "ceilingPending (polls w ! i)"
  shows "(600000 \<le> t \<longrightarrow>
        \<not> intervalActive (polls (elapse i tie env t w) ! i) \<and>
        \<not> ceilingPending (polls (elapse i tie env t w) ! i) \<and>
        \<not> isExecuting (ui (elapse i tie env t w)) \<and>
        intervalTick i srv (elapse i tie env t w) = elapse i tie env t w) \<and>
     (t < 600000 \<and>
      (\<forall>k. \<not> stopsPolling (env k (GetSessionStatus (poll_sessionId (polls w ! i))))) \<longrightarrow>
        intervalActive (polls (elapse i tie env t w) ! i) \<and>
        isExecuting (ui (elapse i tie env t w)) = isExecuting (ui w)) \<and>
     length (requests (elapse i tie env t w)) \<le> length (requests w) + 200 \<and>
     testSession (ui (ceilingTimeout i w')) = testSession (ui w') \<and>
     sessionWrites (ceilingTimeout i w') = sessionWrites w'"
proof -
  let ?srvs = "map env [1 ..< Suc (min (t div 3000) 199)]"
  let ?w1 = "pollTicks i ?srvs w"
  note ticks = pollTicks_live [OF assms(1,2), of ?srvs]
  have late: "\<not> intervalActive (polls (elapse i tie env t w) ! i) \<and>
        \<not> ceilingPending (polls (elapse i tie env t w) ! i) \<and>
        \<not> isExecuting (ui (elapse i tie env t w)) \<and>
        intervalTick i srv (elapse i tie env t w) = elapse i tie env t w"
    if t: "600000 \<le> t"
  proof -
    let ?w2 = "if tie then intervalTick i (env 200) ?w1 else ?w1"
    have p: "i < length (polls ?w2)" "ceilingPending (polls ?w2 ! i)"
      using ticks assms intervalTick_ceiling [of i "env 200" ?w1] by simp_all
    have e: "elapse i tie env t w = ceilingTimeout i ?w2"
      using t by (simp add: elapse_def Let_def)
    have stopped: "\<not> intervalActive (polls (ceilingTimeout i ?w2) ! i)"
      using ceilingTimeout_pending [OF p] by simp
    then have "intervalTick i srv (ceilingTimeout i ?w2) = ceilingTimeout i ?w2"
      by (simp add: intervalTick_idle)
    with ceilingTimeout_pending [OF p] e show ?thesis by simp
  qed
  have early: "intervalActive (polls (elapse i tie env t w) ! i) \<and>
        isExecuting (ui (elapse i tie env t w)) = isExecuting (ui w)"
    if "t < 600000"
      and "\<forall>k. \<not> stopsPolling (env k (GetSessionStatus (poll_sessionId (polls w ! i))))"
    using that ticks by (simp add: elapse_def Let_def)
  have len: "length ?srvs \<le> 199"
    by simp
  from ticks obtain k where "requests ?w1 =
      requests w @ replicate (min (length ?srvs) k) (GetSessionStatus (poll_sessionId (polls w ! i)))"
    by blast
  then have "length (requests ?w1) = length (requests w) + min (length ?srvs) k"
    by (simp only: length_append length_replicate)
  with len have n1: "length (requests ?w1) \<le> length (requests w) + 199"
    by linarith
  let ?w2 = "if tie then intervalTick i (env 200) ?w1 else ?w1"
  have n2: "length (requests ?w2) \<le> Suc (length (requests ?w1))"
  proof (cases tie)
    case True
    then show ?thesis by (simp only: if_True intervalTick_requests_le)
  next
    case False
    then show ?thesis by (simp only: if_False le_SucI order_refl)
  qed
  have bound: "length (requests (elapse i tie env t w)) \<le> length (requests w) + 200"
  proof (cases "t < 600000")
    case True
    then have "elapse i tie env t w = ?w1"
      by (simp only: elapse_def Let_def if_True)
    with n1 show ?thesis by simp
  next
    case False
    then have "elapse i tie env t w = ceilingTimeout i ?w2"
      by (simp only: elapse_def Let_def if_False)
    then have "length (requests (elapse i tie env t w)) = length (requests ?w2)"
      by (simp only: ceilingTimeout_requests)
    with n1 n2 show ?thesis by linarith
  qed
  show ?thesis
    using late early bound ceilingTimeout_session [of i w'] by blast
qed

text \<open>
  C5. Every poll that \<open>pollExecutionStatus\<close> starts is over once 600000 ms have elapsed,
  whatever the replies were: its interval is cleared, its timeout has fired, \<open>isExecuting\<close>
  is false and a further tick does nothing. Before that, with no reply that stops it, the
  interval is still live and \<open>isExecuting\<close> untouched. At most 200 status requests are
  sent. The timeout callback itself never writes the session.
\<close>

theorem polling_self_terminates:
  "(600000 \<le> t \<longrightarrow>
      \<not> intervalActive
          (polls (elapse (length (polls w)) tie env t (pollExecutionStatus sid w)) ! length (polls w)) \<and>
      \<not> ceilingPending
          (polls (elapse (length (polls w)) tie env t (pollExecutionStatus sid w)) ! length (polls w)) \<and>
      \<not> isExecuting (ui (elapse (length (polls w)) tie env t (pollExecutionStatus sid w))) \<and>
      intervalTick (length (polls w)) srv
          (elapse (length (polls w)) tie env t (pollExecutionStatus sid w)) =
        elapse (length (polls w)) tie env t (pollExecutionStatus sid w)) \<and>
   (t < 600000 \<and> (\<forall>k. \<not> stopsPolling (env k (GetSessionStatus sid))) \<longrightarrow>
      intervalActive
          (polls (elapse (length (polls w)) tie env t (pollExecutionStatus sid w)) ! length (polls w)) \<and>
      isExecuting (ui (elapse (length (polls w)) tie env t (pollExecutionStatus sid w))) =
        isExecuting (ui w)) \<and>
   length (requests (elapse (length (polls w)) tie env t (pollExecutionStatus sid w)))
     \<le> length (requests w) + 200 \<and>
   testSession (ui (ceilingTimeout i w')) = testSession (ui w') \<and>
   sessionWrites (ceilingTimeout i w') = sessionWrites w'"
proof -
  let ?w0 = "pollExecutionStatus sid w"
  let ?i = "length (polls w)"
  have reg: "?i < length (polls ?w0)" "intervalActive (polls ?w0 ! ?i)"
      "ceilingPending (polls ?w0 ! ?i)"
    by (simp_all add: pollExecutionStatus_def)
  have same: "poll_sessionId (polls ?w0 ! ?i) = sid" "requests ?w0 = requests w"
      "isExecuting (ui ?w0) = isExecuting (ui w)"
    by (simp_all add: pollExecutionStatus_def requests_def)
  note h = elapse_ceiling [where i = ?i and w = ?w0 and t = t and tie = tie and env = env
      and srv = srv and w' = w', OF reg, unfolded same]
  from h ceilingTimeout_session [of i w'] show ?thesis
    by blast
qed

theorem polling_self_terminates_witness:
  "\<not> intervalActive
       (polls (elapse 0 False env_busy 600000 (pollExecutionStatus (Id (js ''s1'')) w_ready)) ! 0) \<and>
   \<not> isExecuting (ui (elapse 0 True env_busy 600000 (pollExecutionStatus (Id (js ''s1'')) w_ready))) \<and>
   intervalActive
       (polls (elapse 0 False env_busy 599999 (pollExecutionStatus (Id (js ''s1'')) w_ready)) ! 0)"
proof -
  have l: "length (polls w_ready) = 0"
    by (simp add: w_ready_def)
  have s: "\<not> stopsPolling (env_busy k r)" for k r
    by (simp add: env_busy_def stopsPolling_def srv_status_def http_ok_def
        terminalStatus_def empty_reply_def js_eq_iff)
  show ?thesis
    using polling_self_terminates [of 600000 w_ready False env_busy "Id (js ''s1'')"]
      polling_self_terminates [of 600000 w_ready True env_busy "Id (js ''s1'')"]
      polling_self_terminates [of 599999 w_ready False env_busy "Id (js ''s1'')"] s
    by (simp add: l)
qed








subsection \<open>Replies that are not 2xx\<close>

text \<open>
  C2, as amended. A reply that is not 2xx to the parse, clarification, skip or execute
  call makes the session \<^verbatim>\<open>failed\<close>, with the call's message followed by the HTTP status
  text as errorMessage. A reply that is not 2xx to the status call of a live poll is
  skipped: the component state, the timers and the session are as before the tick.
\<close>

theorem non_2xx_replies:
  "(\<not> (trim (instruction (ui w)) = [] \<or> ip (clusterConfig (ui w)) = [] \<or>
        username (clusterConfig (ui w)) = []) \<and>
    srv (ParseTestInstructions (instruction (ui w))
           (if url (clusterConfig (ui w)) \<noteq> [] then url (clusterConfig (ui w))
            else js ''https://'' @ ip (clusterConfig (ui w)))
           (username (clusterConfig (ui w))) (password (clusterConfig (ui w)))) = Resolved r \<and>
    \<not> ok r
    \<longrightarrow> testSession (ui (executeTest srv w)) =
          Some \<lparr>sessionId = Id (js ''error''), status = js ''failed'',
                command = instruction (ui w), workflows = Some [],
                errorMessage = Some (js ''Failed to parse instructions: '' @ statusText r)\<rparr>) \<and>
   (selectedOption (ui w) \<noteq> [] \<and> testSession (ui w) = Some session \<and>
    clarificationQuestion (ui w) = Some question \<and>
    srv (ProvideClarification (sessionId session) (type_q question) (selectedOption (ui w)))
      = Resolved r \<and>
    \<not> ok r
    \<longrightarrow> testSession (ui (handleClarificationResponse srv w)) =
          Some (session\<lparr>status := js ''failed'',
            errorMessage := Some (js ''Failed to process clarification: '' @ statusText r)\<rparr>)) \<and>
   (testSession (ui w) = Some session \<and>
    srv (SkipClarification (idText (sessionId session)))
      = Resolved r \<and>
    \<not> ok r
    \<longrightarrow> testSession (ui (skipClarification srv w)) =
          Some (session\<lparr>status := js ''failed'',
            errorMessage := Some (js ''Failed to skip clarification: '' @ statusText r)\<rparr>)) \<and>
   (srv (ExecuteTestPlan sid) = Resolved r \<and> \<not> ok r
    \<longrightarrow> testSession (ui (proceedWithExecution srv sid body w)) =
          Some \<lparr>sessionId = sid, status = js ''failed'', command = instruction (ui w),
                workflows = Some [],
                errorMessage = Some (js ''Failed to execute test: '' @ statusText r)\<rparr>) \<and>
   (i < length (polls w) \<and> intervalActive (polls w ! i) \<and>
    srv (GetSessionStatus (poll_sessionId (polls w ! i))) = Resolved r \<and> \<not> ok r
    \<longrightarrow> ui (intervalTick i srv w) = ui w \<and> polls (intervalTick i srv w) = polls w \<and>
        sessionWrites (intervalTick i srv w) = sessionWrites w)"
proof -
  have parse: "testSession (ui (executeTest srv w)) =
          Some \<lparr>sessionId = Id (js ''error''), status = js ''failed'',
                command = instruction (ui w), workflows = Some [],
                errorMessage = Some (js ''Failed to parse instructions: '' @ statusText r)\<rparr>"
    if "\<not> (trim (instruction (ui w)) = [] \<or> ip (clusterConfig (ui w)) = [] \<or>
        username (clusterConfig (ui w)) = [])"
      and "srv (ParseTestInstructions (instruction (ui w))
           (if url (clusterConfig (ui w)) \<noteq> [] then url (clusterConfig (ui w))
            else js ''https://'' @ ip (clusterConfig (ui w)))
           (username (clusterConfig (ui w))) (password (clusterConfig (ui w)))) = Resolved r"
      and "\<not> ok r"
    using that by (simp add: executeTest_def Let_def settle_def world_ops)
  have answer: "testSession (ui (handleClarificationResponse srv w)) =
          Some (session\<lparr>status := js ''failed'',
            errorMessage := Some (js ''Failed to process clarification: '' @ statusText r)\<rparr>)"
    if "selectedOption (ui w) \<noteq> []" and "testSession (ui w) = Some session"
      and "clarificationQuestion (ui w) = Some question"
      and "srv (ProvideClarification (sessionId session) (type_q question) (selectedOption (ui w)))
             = Resolved r"
      and "\<not> ok r"
    using that by (simp add: handleClarificationResponse_def Let_def settle_def world_ops)
  have skip: "testSession (ui (skipClarification srv w)) =
          Some (session\<lparr>status := js ''failed'',
            errorMessage := Some (js ''Failed to skip clarification: '' @ statusText r)\<rparr>)"
    if "testSession (ui w) = Some session"
      and "srv (SkipClarification (idText (sessionId session)))
             = Resolved r"
      and "\<not> ok r"
    using that by (simp add: skipClarification_def Let_def settle_def world_ops)
  have execute: "testSession (ui (proceedWithExecution srv sid body w)) =
          Some \<lparr>sessionId = sid, status = js ''failed'', command = instruction (ui w),
                workflows = Some [],
                errorMessage = Some (js ''Failed to execute test: '' @ statusText r)\<rparr>"
    if "srv (ExecuteTestPlan sid) = Resolved r" and "\<not> ok r"
    using that by (simp add: proceedWithExecution_def Let_def settle_def world_ops)
  have poll: "ui (intervalTick i srv w) = ui w \<and> polls (intervalTick i srv w) = polls w \<and>
        sessionWrites (intervalTick i srv w) = sessionWrites w"
    if "i < length (polls w)" and "intervalActive (polls w ! i)"
      and "srv (GetSessionStatus (poll_sessionId (polls w ! i))) = Resolved r" and "\<not> ok r"
    using that by (simp add: intervalTick_def Let_def world_ops)
  show ?thesis
    using parse answer skip execute poll by blast
qed

theorem non_2xx_replies_witness:
  "testSession (ui (executeTest srv_500 w_ready)) =
     Some \<lparr>sessionId = Id (js ''error''), status = js ''failed'',
           command = js ''create L3VN'', workflows = Some [],
           errorMessage = Some (js ''Failed to parse instructions: Internal Server Error'')\<rparr> \<and>
   testSession (ui (handleClarificationResponse srv_500 w_chosen)) =
     Some (session_asked\<lparr>status := js ''failed'',
       errorMessage := Some (js ''Failed to process clarification: Internal Server Error'')\<rparr>) \<and>
   testSession (ui (skipClarification srv_500 w_chosen)) =
     Some (session_asked\<lparr>status := js ''failed'',
       errorMessage := Some (js ''Failed to skip clarification: Internal Server Error'')\<rparr>) \<and>
   testSession (ui (proceedWithExecution srv_500 (Id (js ''s1'')) empty_reply w_ready)) =
     Some \<lparr>sessionId = Id (js ''s1''), status = js ''failed'',
           command = js ''create L3VN'', workflows = Some [],
           errorMessage = Some (js ''Failed to execute test: Internal Server Error'')\<rparr> \<and>
   ui (intervalTick 0 srv_500 w_polling) = ui w_polling \<and>
   polls (intervalTick 0 srv_500 w_polling) = polls w_polling"
proof -
  let ?r = "\<lparr>ok = False, statusText = js ''Internal Server Error'',
             json = Inl (js ''Unexpected end of JSON input'')\<rparr>"
  have r: "srv_500 q = Resolved ?r" for q
    by (simp add: srv_500_def http_500_def)
  have c: "selectedOption (ui w_chosen) \<noteq> []" "testSession (ui w_chosen) = Some session_asked"
      "clarificationQuestion (ui w_chosen) = Some question0"
    by (simp_all add: w_chosen_def ui_idle_def js_Nil_iff)
  have p: "0 < length (polls w_polling)" "intervalActive (polls w_polling ! 0)"
    by (simp_all add: w_polling_def poll0_def)
  have i: "instruction (ui w_ready) = js ''create L3VN''"
    by (simp add: w_ready_def ui_idle_def)
  show ?thesis
    using non_2xx_replies [where srv = srv_500 and w = w_ready and r = ?r
        and sid = "Id (js ''s1'')" and body = empty_reply]
      non_2xx_replies [where srv = srv_500 and w = w_chosen and r = ?r
        and session = session_asked and question = question0]
      non_2xx_replies [where srv = srv_500 and w = w_polling and r = ?r and i = 0]
      w_ready_filled r c p i
    by (simp add: js_append)
qed

text \<open>
  The polling call is the exception: after a 500 reply to it the session is still
  \<^verbatim>\<open>executing\<close>, not \<^verbatim>\<open>failed\<close>, has no errorMessage, and the interval is still live.
\<close>

theorem poll_ignores_non_2xx:
  "srv_500 (GetSessionStatus (Id (js ''s1''))) =
     Resolved \<lparr>ok = False, statusText = js ''Internal Server Error'',
               json = Inl (js ''Unexpected end of JSON input'')\<rparr> \<and>
   map_option status (testSession (ui (intervalTick 0 srv_500 w_polling))) = Some (js ''executing'') \<and>
   map_option status (testSession (ui (intervalTick 0 srv_500 w_polling))) \<noteq> Some (js ''failed'') \<and>
   map_option errorMessage (testSession (ui (intervalTick 0 srv_500 w_polling))) = Some None \<and>
   intervalActive (polls (intervalTick 0 srv_500 w_polling) ! 0)"
  by (simp add: intervalTick_def Let_def world_ops srv_500_def http_500_def w_polling_def
      poll0_def session_running_def js_eq_iff)


subsection \<open>Skipping and the end of a clarification\<close>

text \<open>
  C6, as amended. After a skip reply that is 2xx and decodes, the session written with
  status \<^verbatim>\<open>parsing\<close> carries the reply's workflows field as it is. When the execute call
  then succeeds, the session written with status \<^verbatim>\<open>executing\<close> carries the reply's
  workflows list as it is (same order, same repetitions, even when empty) if the reply
  has one; if the reply has none it carries the reply's updated_workflows, or the empty
  list when that is missing too.
\<close>

theorem skip_workflows_stored:
  assumes "testSession (ui w) = Some session"
    and "srv (SkipClarification (idText (sessionId session))) = Resolved response"
    and "ok response" and "json response = Inr skipResult"
  shows "(\<exists>rest. sessionWrites (skipClarification srv w) =
            sessionWrites w @
            Some (session\<lparr>status := js ''parsing'', workflows := json_workflows skipResult\<rparr>)
              # rest) \<and>
     (settle (js ''Failed to execute test: '') (srv (ExecuteTestPlan (sessionId session))) = Inr body
      \<longrightarrow> sessionWrites (skipClarification srv w) =
            sessionWrites w @
            [Some (session\<lparr>status := js ''parsing'', workflows := json_workflows skipResult\<rparr>),
             Some \<lparr>sessionId = sessionId session, status = js ''executing'',
                   command = instruction (ui w),
                   workflows =
                     (case json_workflows skipResult of
                        Some ws \<Rightarrow> Some ws
                      | None \<Rightarrow>
                          (case json_updated_workflows skipResult of
                             Some us \<Rightarrow> Some us | None \<Rightarrow> Some [])),
                   errorMessage = None\<rparr>] \<and>
          testSession (ui (skipClarification srv w)) =
            Some \<lparr>sessionId = sessionId session, status = js ''executing'',
                  command = instruction (ui w),
                  workflows =
                    (case json_workflows skipResult of
                       Some ws \<Rightarrow> Some ws
                     | None \<Rightarrow>
                         (case json_updated_workflows skipResult of
                            Some us \<Rightarrow> Some us | None \<Rightarrow> Some [])),
                  errorMessage = None\<rparr>)"
  using assms
  by (simp add: skipClarification_def Let_def settle_def proceedWithExecution_def
      pollExecutionStatus_def world_ops orElse_def split: sum.splits fetch_result.splits)

theorem skip_workflows_stored_witness:
  "sessionWrites (skipClarification srv_workflows w_asked) =
     [Some (session_asked\<lparr>status := js ''parsing'',
        workflows := Some [js ''provision_devices'', js ''create_fabric'', js ''provision_devices'']\<rparr>),
      Some \<lparr>sessionId = Id (js ''s1''), status = js ''executing'',
           command = js ''create L3VN'',
           workflows = Some [js ''provision_devices'', js ''create_fabric'', js ''provision_devices''],
           errorMessage = None\<rparr>] \<and>
   sessionWrites (skipClarification srv_updated w_asked) =
     [Some (session_asked\<lparr>status := js ''parsing'', workflows := None\<rparr>),
      Some \<lparr>sessionId = Id (js ''s1''), status = js ''executing'',
           command = js ''create L3VN'',
           workflows = Some [js ''create_fabric'', js ''provision_devices''],
           errorMessage = None\<rparr>]"
proof -
  let ?ws = "[js ''provision_devices'', js ''create_fabric'', js ''provision_devices'']"
  let ?body = "empty_reply\<lparr>json_workflows := Some ?ws\<rparr>"
  let ?resp = "\<lparr>ok = True, statusText = js ''OK'', json = Inr ?body\<rparr>"
  let ?body' = "empty_reply\<lparr>json_updated_workflows :=
      Some [js ''create_fabric'', js ''provision_devices'']\<rparr>"
  let ?resp' = "\<lparr>ok = True, statusText = js ''OK'', json = Inr ?body'\<rparr>"
  have s: "testSession (ui w_asked) = Some session_asked"
    by (simp add: w_asked_def)
  have r: "srv_workflows (SkipClarification (idText (sessionId session_asked))) = Resolved ?resp"
    by (simp add: srv_workflows_def http_ok_def)
  have r': "srv_updated (SkipClarification (idText (sessionId session_asked))) = Resolved ?resp'"
    by (simp add: srv_updated_def http_ok_def)
  have e: "settle (js ''Failed to execute test: '')
             (srv_workflows (ExecuteTestPlan (sessionId session_asked))) = Inr empty_reply"
    by (simp add: srv_workflows_def http_ok_def settle_def)
  have e': "settle (js ''Failed to execute test: '')
             (srv_updated (ExecuteTestPlan (sessionId session_asked))) = Inr empty_reply"
    by (simp add: srv_updated_def http_ok_def settle_def)
  note a = skip_workflows_stored [where w = w_asked and srv = srv_workflows
      and session = session_asked and response = ?resp and skipResult = ?body
      and body = empty_reply, OF s r]
  note b = skip_workflows_stored [where w = w_asked and srv = srv_updated
      and session = session_asked and response = ?resp' and skipResult = ?body'
      and body = empty_reply, OF s r']
  from a b e e' show ?thesis
    by (simp add: session_asked_def w_asked_def ui_idle_def sessionWrites_def empty_reply_def)
qed

text \<open>
  The list stored when execution proceeds is not always the reply's workflows field:
  this reply has no such field, and the session gets its updated_workflows.
\<close>

theorem skip_without_workflows_falls_back:
  "json_workflows (empty_reply\<lparr>json_updated_workflows :=
       Some [js ''create_fabric'', js ''provision_devices'']\<rparr>) = None \<and>
   srv_updated (SkipClarification (js ''s1'')) =
     http_ok (empty_reply\<lparr>json_updated_workflows :=
       Some [js ''create_fabric'', js ''provision_devices'']\<rparr>) \<and>
   map_option workflows (testSession (ui (skipClarification srv_updated w_asked))) =
     Some (Some [js ''create_fabric'', js ''provision_devices''])"
  by (simp add: skipClarification_def Let_def settle_def proceedWithExecution_def
      pollExecutionStatus_def world_ops orElse_def srv_updated_def http_ok_def empty_reply_def
      w_asked_def ui_idle_def session_asked_def idText_def)

text \<open>
  C9, as amended. Once the server has accepted a choice or a skip, the stored question is
  discarded and the dialog hidden, whatever the execute call then does. When the
  clarification or skip call fails (rejected, not 2xx, or a body that does not decode),
  the dialog is hidden and the session becomes \<^verbatim>\<open>failed\<close>, but the stored question is
  kept.
\<close>

theorem clarification_question_lifecycle:
  "(selectedOption (ui w) \<noteq> [] \<and> testSession (ui w) = Some session \<and>
    clarificationQuestion (ui w) = Some question
    \<longrightarrow>
      (case settle (js ''Failed to process clarification: '')
              (srv (ProvideClarification (sessionId session) (type_q question)
                      (selectedOption (ui w)))) of
         Inr clarificationResult \<Rightarrow>
           clarificationQuestion (ui (handleClarificationResponse srv w)) = None \<and>
           \<not> showClarification (ui (handleClarificationResponse srv w))
       | Inl msg \<Rightarrow>
           clarificationQuestion (ui (handleClarificationResponse srv w)) = Some question \<and>
           \<not> showClarification (ui (handleClarificationResponse srv w)) \<and>
           testSession (ui (handleClarificationResponse srv w)) =
             Some (session\<lparr>status := js ''failed'', errorMessage := Some msg\<rparr>))) \<and>
   (testSession (ui w) = Some session
    \<longrightarrow>
      (case settle (js ''Failed to skip clarification: '')
              (srv (SkipClarification
                      (idText (sessionId session)))) of
         Inr skipResult \<Rightarrow>
           clarificationQuestion (ui (skipClarification srv w)) = None \<and>
           \<not> showClarification (ui (skipClarification srv w))
       | Inl msg \<Rightarrow>
           clarificationQuestion (ui (skipClarification srv w)) = clarificationQuestion (ui w) \<and>
           \<not> showClarification (ui (skipClarification srv w)) \<and>
           testSession (ui (skipClarification srv w)) =
             Some (session\<lparr>status := js ''failed'', errorMessage := Some msg\<rparr>)))"
proof -
  have frame: "clarificationQuestion (ui (proceedWithExecution srv sid body v)) =
        clarificationQuestion (ui v) \<and>
      showClarification (ui (proceedWithExecution srv sid body v)) = showClarification (ui v)"
    for sid body v
    by (simp add: proceedWithExecution_def Let_def pollExecutionStatus_def world_ops
        split: sum.splits)
  have answer: "case settle (js ''Failed to process clarification: '')
              (srv (ProvideClarification (sessionId session) (type_q question)
                      (selectedOption (ui w)))) of
         Inr clarificationResult \<Rightarrow>
           clarificationQuestion (ui (handleClarificationResponse srv w)) = None \<and>
           \<not> showClarification (ui (handleClarificationResponse srv w))
       | Inl msg \<Rightarrow>
           clarificationQuestion (ui (handleClarificationResponse srv w)) = Some question \<and>
           \<not> showClarification (ui (handleClarificationResponse srv w)) \<and>
           testSession (ui (handleClarificationResponse srv w)) =
             Some (session\<lparr>status := js ''failed'', errorMessage := Some msg\<rparr>)"
    if "selectedOption (ui w) \<noteq> []" and "testSession (ui w) = Some session"
      and "clarificationQuestion (ui w) = Some question"
    using that
    by (simp add: handleClarificationResponse_def Let_def frame world_ops split: sum.splits)
  have skip: "case settle (js ''Failed to skip clarification: '')
              (srv (SkipClarification
                      (idText (sessionId session)))) of
         Inr skipResult \<Rightarrow>
           clarificationQuestion (ui (skipClarification srv w)) = None \<and>
           \<not> showClarification (ui (skipClarification srv w))
       | Inl msg \<Rightarrow>
           clarificationQuestion (ui (skipClarification srv w)) = clarificationQuestion (ui w) \<and>
           \<not> showClarification (ui (skipClarification srv w)) \<and>
           testSession (ui (skipClarification srv w)) =
             Some (session\<lparr>status := js ''failed'', errorMessage := Some msg\<rparr>)"
    if "testSession (ui w) = Some session"
    using that
    by (simp add: skipClarification_def Let_def frame world_ops split: sum.splits)
  show ?thesis using answer skip by blast
qed

theorem clarification_question_lifecycle_witness:
  "clarificationQuestion (ui (handleClarificationResponse srv_mute w_chosen)) = None \<and>
   clarificationQuestion (ui (skipClarification srv_mute w_chosen)) = None \<and>
   clarificationQuestion (ui (handleClarificationResponse srv_down w_chosen)) = Some question0 \<and>
   clarificationQuestion (ui (skipClarification srv_down w_chosen)) = Some question0 \<and>
   \<not> showClarification (ui (skipClarification srv_down w_chosen))"
proof -
  have c: "selectedOption (ui w_chosen) \<noteq> []" "testSession (ui w_chosen) = Some session_asked"
      "clarificationQuestion (ui w_chosen) = Some question0"
    by (simp_all add: w_chosen_def ui_idle_def js_Nil_iff)
  have m: "settle p (srv_mute q) = Inr empty_reply" for p q
    by (simp add: settle_def srv_mute_def http_ok_def)
  have d: "settle p (srv_down q) = Inl (js ''Failed to fetch'')" for p q
    by (simp add: settle_def srv_down_def)
  show ?thesis
    using clarification_question_lifecycle [where w = w_chosen and srv = srv_mute
        and session = session_asked and question = question0]
      clarification_question_lifecycle [where w = w_chosen and srv = srv_down
        and session = session_asked and question = question0]
      c
    by (simp add: m d)
qed

text \<open>
  The question can outlive the \<^verbatim>\<open>needs_clarification\<close> status: after a 500 reply to the
  clarification call it is still stored while the session status is \<^verbatim>\<open>failed\<close>.
\<close>

theorem failed_answer_keeps_question:
  "clarificationQuestion (ui (handleClarificationResponse srv_500 w_chosen)) = Some question0 \<and>
   map_option status (testSession (ui (handleClarificationResponse srv_500 w_chosen)))
     = Some (js ''failed'') \<and>
   js ''failed'' \<noteq> js ''needs_clarification''"
  by (simp add: handleClarificationResponse_def Let_def world_ops settle_def srv_500_def
      http_500_def w_chosen_def ui_idle_def session_asked_def js_eq_iff js_Nil_iff)


end
